theory Spec2Isabelle
  imports Main "HOL-Library.Char_ord" "HOL-Library.List_Lexorder"
begin

section \<open>Python values\<close>

text \<open>
  The values that \<^verbatim>\<open>json.load\<close> and \<^verbatim>\<open>r.json()\<close> hand to the program. A dict is
  an association list with each key once, in insertion order. JSON \<^verbatim>\<open>true\<close> and
  \<^verbatim>\<open>false\<close> are Python's \<^verbatim>\<open>True\<close> and \<^verbatim>\<open>False\<close>, which are the integers 1 and 0 to
  \<^verbatim>\<open>==\<close>, \<^verbatim>\<open>hash\<close> and \<^verbatim>\<open>\<less>\<close>; they are \<open>PyInt 1\<close> and \<open>PyInt 0\<close> here, so that
  the one place where they would differ is the text of a notification for such an element
  (\<^verbatim>\<open>True\<close> in Python, \<^verbatim>\<open>1\<close> here). Numbers with a fraction are not modelled. A
  string is the list of its UTF-8 bytes.
\<close>

datatype pyval =
    PyNone
  | PyInt int
  | PyStr string
  | PyList "pyval list"
  | PyDict "(string \<times> pyval) list"

text \<open>The hashable values, the only ones a Python set can hold.\<close>

datatype atom = ANone | AInt int | AStr string

datatype error =
    FileNotFoundError
  | OSError
  | JSONDecodeError
  | AttributeError
  | TypeError
  | RequestException
  | HTTPError

fun atom_of :: "pyval \<Rightarrow> atom option" where
  "atom_of PyNone = Some ANone"
| "atom_of (PyInt i) = Some (AInt i)"
| "atom_of (PyStr s) = Some (AStr s)"
| "atom_of (PyList xs) = None"
| "atom_of (PyDict kvs) = None"

fun val_of :: "atom \<Rightarrow> pyval" where
  "val_of ANone = PyNone"
| "val_of (AInt i) = PyInt i"
| "val_of (AStr s) = PyStr s"

fun is_str :: "atom \<Rightarrow> bool" where
  "is_str (AStr s) = True"
| "is_str a = False"

fun is_int :: "atom \<Rightarrow> bool" where
  "is_int (AInt i) = True"
| "is_int a = False"

fun the_str :: "atom \<Rightarrow> string" where
  "the_str (AStr s) = s"
| "the_str a = []"

fun the_int :: "atom \<Rightarrow> int" where
  "the_int (AInt i) = i"
| "the_int a = 0"

text \<open>\<^verbatim>\<open>x.get(k, d)\<close>: only a dict has the method.\<close>

fun py_get :: "pyval \<Rightarrow> string \<Rightarrow> pyval \<Rightarrow> error + pyval" where
  "py_get (PyDict kvs) k d = Inr (case map_of kvs k of None \<Rightarrow> d | Some v \<Rightarrow> v)"
| "py_get x k d = Inl AttributeError"

text \<open>
  Iteration (\<^verbatim>\<open>for s in x\<close>, \<^verbatim>\<open>set(x)\<close>): a list gives its elements, a dict its keys,
  a string its characters (one byte each here, so one character each for ASCII text);
  \<^verbatim>\<open>None\<close> and numbers are not iterable.
\<close>

fun py_iter :: "pyval \<Rightarrow> error + pyval list" where
  "py_iter (PyList xs) = Inr xs"
| "py_iter (PyDict kvs) = Inr (map (\<lambda>kv. PyStr (fst kv)) kvs)"
| "py_iter (PyStr s) = Inr (map (\<lambda>c. PyStr [c]) s)"
| "py_iter x = Inl TypeError"

text \<open>\<^verbatim>\<open>set(x)\<close>: an unhashable element (a list, a dict) raises TypeError.\<close>

definition py_set :: "pyval \<Rightarrow> error + atom set" where
  "py_set x =
     (case py_iter x of
        Inl e \<Rightarrow> Inl e
      | Inr xs \<Rightarrow>
          (case those (map atom_of xs) of
             None \<Rightarrow> Inl TypeError
           | Some as \<Rightarrow> Inr (set as)))"

text \<open>
  \<^verbatim>\<open>sorted(s)\<close> of a set: strings sort among themselves (by code point, which is the
  order of their UTF-8 bytes), integers among themselves; \<^verbatim>\<open>None\<close> compares with
  nothing and a string does not compare with an integer, so any other set of two or more
  elements raises TypeError.
\<close>

definition py_sorted :: "atom set \<Rightarrow> error + atom list" where
  "py_sorted S =
     (if \<forall>a\<in>S. is_str a then Inr (map AStr (sorted_list_of_set (the_str ` S)))
      else if \<forall>a\<in>S. is_int a then Inr (map AInt (sorted_list_of_set (the_int ` S)))
      else if S = {ANone} then Inr [ANone]
      else Inl TypeError)"

text \<open>\<^verbatim>\<open>s.upper()\<close>, on ASCII letters; only a string has the method.\<close>

definition upper_char :: "char \<Rightarrow> char" where
  "upper_char c =
     (case map_of (zip ''abcdefghijklmnopqrstuvwxyz'' ''ABCDEFGHIJKLMNOPQRSTUVWXYZ'') c of
        None \<Rightarrow> c
      | Some u \<Rightarrow> u)"

fun py_upper :: "pyval \<Rightarrow> error + string" where
  "py_upper (PyStr s) = Inr (map upper_char s)"
| "py_upper x = Inl AttributeError"

subsection \<open>Rendering numbers and times\<close>

definition digit :: "nat \<Rightarrow> char" where
  "digit n = ''0123456789'' ! (n mod 10)"

function show_nat :: "nat \<Rightarrow> string" where
  "show_nat n = (if n < 10 then [digit n] else show_nat (n div 10) @ [digit n])"
  by pat_completeness auto
termination
  by (relation "measure id") auto

declare show_nat.simps [simp del]

definition show_int :: "int \<Rightarrow> string" where
  "show_int i = (if i < 0 then CHR ''-'' # show_nat (nat (- i)) else show_nat (nat i))"

text \<open>\<^verbatim>\<open>f"{p}"\<close>, the \<^verbatim>\<open>str\<close> of a set element.\<close>

fun py_str :: "atom \<Rightarrow> string" where
  "py_str ANone = ''None''"
| "py_str (AInt i) = show_int i"
| "py_str (AStr s) = s"

definition pad2 :: "nat \<Rightarrow> string" where
  "pad2 n = [digit (n div 10), digit n]"

text \<open>
  The calendar date of a day number (days since 1970-01-01), as \<^verbatim>\<open>time.gmtime\<close>
  computes it: year, month and day of the Gregorian calendar. The day is located in its
  400-year era (146097 days, counted from a 1st of March), then in its year of the era,
  then in its month; each step is a function of the results before it.
\<close>

definition year_of_era :: "nat \<Rightarrow> nat" where
  "year_of_era doe = (doe - doe div 1460 + doe div 36524 - doe div 146096) div 365"

definition day_of_year :: "nat \<Rightarrow> nat \<Rightarrow> nat" where
  "day_of_year doe yoe = doe - (365 * yoe + yoe div 4 - yoe div 100)"

definition civil_of_month :: "nat \<Rightarrow> nat \<Rightarrow> nat \<Rightarrow> nat \<times> nat \<times> nat" where
  "civil_of_month y doy mp =
     (if mp < 10 then y else y + 1,
      if mp < 10 then mp + 3 else mp - 9,
      doy - (153 * mp + 2) div 5 + 1)"

definition civil_of_day :: "nat \<Rightarrow> nat \<Rightarrow> nat \<times> nat \<times> nat" where
  "civil_of_day y doy = civil_of_month y doy ((5 * doy + 2) div 153)"

definition civil_of_year :: "nat \<Rightarrow> nat \<Rightarrow> nat \<Rightarrow> nat \<times> nat \<times> nat" where
  "civil_of_year era doe yoe = civil_of_day (yoe + era * 400) (day_of_year doe yoe)"

definition civil :: "nat \<Rightarrow> nat \<times> nat \<times> nat" where
  "civil days =
     civil_of_year ((days + 719468) div 146097) ((days + 719468) mod 146097)
       (year_of_era ((days + 719468) mod 146097))"

text \<open>
  \<^verbatim>\<open>time.strftime("%Y-%m-%d %H:%M:%S", time.gmtime())\<close> at \<open>t\<close> seconds since the
  epoch.
\<close>

fun render :: "nat \<times> nat \<times> nat \<Rightarrow> nat \<Rightarrow> string" where
  "render (y, m, d) r =
     show_nat y @ ''-'' @ pad2 m @ ''-'' @ pad2 d @ '' '' @
     pad2 (r div 3600) @ '':'' @ pad2 (r mod 3600 div 60) @ '':'' @ pad2 (r mod 60)"

definition strftime :: "nat \<Rightarrow> string" where
  "strftime t = render (civil (t div 86400)) (t mod 86400)"

section \<open>The baseline file\<close>

text \<open>
  What \<^verbatim>\<open>known_pairs.json\<close> can be to a reader: absent, present but not readable
  (\<^verbatim>\<open>open\<close> or the decoding raises), text that is not a JSON document (an empty or
  cut-off file is such a text), or the document \<^verbatim>\<open>json.load\<close> returns.
\<close>

datatype file_state = Missing | Unreadable | Malformed | Json pyval

text \<open>The body of the \<^verbatim>\<open>try\<close> in \<^verbatim>\<open>load_known_pairs\<close>.\<close>

definition read_known_pairs :: "file_state \<Rightarrow> error + atom set" where
  "read_known_pairs f =
     (case f of
        Missing \<Rightarrow> Inl FileNotFoundError
      | Unreadable \<Rightarrow> Inl OSError
      | Malformed \<Rightarrow> Inl JSONDecodeError
      | Json data \<Rightarrow>
          (case py_get data ''pairs'' (PyList []) of
             Inl e \<Rightarrow> Inl e
           | Inr v \<Rightarrow> py_set v))"

text \<open>Both \<^verbatim>\<open>except\<close> clauses return the empty set.\<close>

definition load_known_pairs :: "file_state \<Rightarrow> atom set" where
  "load_known_pairs f =
     (case read_known_pairs f of
        Inl FileNotFoundError \<Rightarrow> {}
      | Inl e \<Rightarrow> {}
      | Inr pairs \<Rightarrow> pairs)"

text \<open>
  What the disk does to one \<^verbatim>\<open>save_known_pairs\<close>: the write goes through, or
  \<^verbatim>\<open>open(..., "w")\<close> raises and the file is untouched, or \<^verbatim>\<open>open\<close> has truncated the
  file and the write then raises or the process dies before the document is complete.
\<close>

datatype write_outcome = WriteOk | OpenFails | WriteFails

text \<open>
  The body of the \<^verbatim>\<open>try\<close> in \<^verbatim>\<open>save_known_pairs\<close>: the exception raised, if any, and
  the file left behind. \<^verbatim>\<open>sorted(list(pairs))\<close> is evaluated inside the \<^verbatim>\<open>with\<close>, after
  \<^verbatim>\<open>open\<close> has emptied the file.
\<close>

definition write_known_pairs ::
  "write_outcome \<Rightarrow> atom set \<Rightarrow> file_state \<Rightarrow> error option \<times> file_state" where
  "write_known_pairs d pairs f =
     (if d = OpenFails then (Some OSError, f)
      else
        (case py_sorted pairs of
           Inl e \<Rightarrow> (Some e, Malformed)
         | Inr xs \<Rightarrow>
             if d = WriteFails then (Some OSError, Malformed)
             else (None, Json (PyDict [(''pairs'', PyList (map val_of xs))]))))"

definition save_known_pairs :: "write_outcome \<Rightarrow> atom set \<Rightarrow> file_state \<Rightarrow> file_state" where
  "save_known_pairs d pairs f = snd (write_known_pairs d pairs f)"

section \<open>The listing source\<close>

text \<open>
  What the exchange does to one request: \<^verbatim>\<open>requests.get\<close> raises, or
  \<^verbatim>\<open>raise_for_status\<close> raises, or \<^verbatim>\<open>r.json()\<close> raises, or the body is a document.
\<close>

datatype http = NoAnswer | BadStatus | NotJson | Body pyval

text \<open>
  The list comprehension of \<^verbatim>\<open>get_all_pairs\<close>:
  \<^verbatim>\<open>[s.get("symbol") for s in ... if s.get("status", "").upper() == "TRADING"]\<close>.
\<close>

fun trading :: "pyval list \<Rightarrow> error + pyval list" where
  "trading [] = Inr []"
| "trading (s # ss) =
     (case py_get s ''status'' (PyStr []) of
        Inl e \<Rightarrow> Inl e
      | Inr st \<Rightarrow>
          (case py_upper st of
             Inl e \<Rightarrow> Inl e
           | Inr u \<Rightarrow>
               if u = ''TRADING'' then
                 (case py_get s ''symbol'' PyNone of
                    Inl e \<Rightarrow> Inl e
                  | Inr symbol \<Rightarrow>
                      (case trading ss of Inl e \<Rightarrow> Inl e | Inr syms \<Rightarrow> Inr (symbol # syms)))
               else trading ss))"

definition fetch_symbols :: "http \<Rightarrow> error + pyval list" where
  "fetch_symbols r =
     (case r of
        NoAnswer \<Rightarrow> Inl RequestException
      | BadStatus \<Rightarrow> Inl HTTPError
      | NotJson \<Rightarrow> Inl JSONDecodeError
      | Body data \<Rightarrow>
          (case py_get data ''symbols'' (PyList []) of
             Inl e \<Rightarrow> Inl e
           | Inr v \<Rightarrow> (case py_iter v of Inl e \<Rightarrow> Inl e | Inr ss \<Rightarrow> trading ss)))"

definition get_all_pairs :: "http \<Rightarrow> pyval list" where
  "get_all_pairs r = (case fetch_symbols r of Inl e \<Rightarrow> [] | Inr symbols \<Rightarrow> symbols)"

section \<open>The monitoring loop\<close>

text \<open>
  One message handed to \<^verbatim>\<open>send_telegram_message\<close>: the clock when it was handed over
  (milliseconds since the epoch), its text, and whether the transport delivered it.
\<close>

record sent =
  sent_at :: nat
  body :: string
  delivered :: bool

text \<open>
  The state the loop works on: its local \<^verbatim>\<open>known\<close>, the baseline file, the clock,
  and every message handed to the transport so far. The clock moves with the sleeps
  only, so it is a lower bound on the time that has passed.
\<close>

record state =
  known :: "atom set"
  known_pairs_file :: file_state
  clock :: nat
  outbox :: "sent list"

text \<open>
  What the outside does during one pass of the loop: the exchange's answer, which texts
  the transport delivers, and what the disk does to the save.
\<close>

record env =
  answer :: http
  sink :: "string \<Rightarrow> bool"
  disk :: write_outcome

definition POLL_INTERVAL :: nat where
  "POLL_INTERVAL = 60"

definition sleep :: "nat \<Rightarrow> state \<Rightarrow> state" where
  "sleep ms s = s\<lparr>clock := clock s + ms\<rparr>"

text \<open>The exception of \<^verbatim>\<open>send_message\<close> is caught: either way the call returns.\<close>

definition send_telegram_message :: "(string \<Rightarrow> bool) \<Rightarrow> string \<Rightarrow> state \<Rightarrow> state" where
  "send_telegram_message snk txt s =
     s\<lparr>outbox := outbox s @ [\<lparr>sent_at = clock s, body = txt, delivered = snk txt\<rparr>]\<rparr>"

definition message :: "atom \<Rightarrow> string \<Rightarrow> string" where
  "message p now =
     [CHR 0xF0, CHR 0x9F, CHR 0x86, CHR 0x95] @ '' Neues Pair entdeckt: <b>'' @ py_str p @
     ''</b>'' @ [CHR 0x0A] @ ''Exchange: Binance'' @ [CHR 0x0A] @ ''Zeit (UTC): '' @ now"

definition startup_text :: "nat \<Rightarrow> string" where
  "startup_text n =
     [CHR 0xF0, CHR 0x9F, CHR 0xA4, CHR 0x96] @ '' Bot gestartet. '' @ [CHR 0xC3, CHR 0x9C] @
     ''berwachung l'' @ [CHR 0xC3, CHR 0xA4] @ ''uft ('' @ show_nat n @ '' bekannte Paare).''"

text \<open>The \<^verbatim>\<open>for p in sorted(new_pairs)\<close> loop, on the sorted list.\<close>

fun notify :: "(string \<Rightarrow> bool) \<Rightarrow> string \<Rightarrow> atom list \<Rightarrow> state \<Rightarrow> state" where
  "notify snk now [] s = s"
| "notify snk now (p # ps) s =
     notify snk now ps (sleep 500 (send_telegram_message snk (message p now) s))"

text \<open>
  One pass of \<^verbatim>\<open>while True\<close>. A TypeError of \<^verbatim>\<open>set(...)\<close> or of \<^verbatim>\<open>sorted(...)\<close> is
  caught by the loop's \<^verbatim>\<open>except\<close>, before anything was sent or changed; the empty
  answer sleeps and continues.
\<close>

definition cycle :: "env \<Rightarrow> state \<Rightarrow> state" where
  "cycle e s =
     (case py_set (PyList (get_all_pairs (answer e))) of
        Inl err \<Rightarrow> sleep (1000 * POLL_INTERVAL) s
      | Inr all_pairs \<Rightarrow>
          if all_pairs = {} then sleep (1000 * POLL_INTERVAL) s
          else
            (let new_pairs = all_pairs - known s in
             if new_pairs \<noteq> {} then
               (case py_sorted new_pairs of
                  Inl err \<Rightarrow> sleep (1000 * POLL_INTERVAL) s
                | Inr ps \<Rightarrow>
                    (let s1 = notify (sink e) (strftime (clock s div 1000)) ps s;
                         known1 = known s1 \<union> new_pairs;
                         saved = save_known_pairs (disk e) known1 (known_pairs_file s1);
                         s2 = s1\<lparr>known := known1, known_pairs_file := saved\<rparr>
                     in sleep (1000 * POLL_INTERVAL) s2))
             else sleep (1000 * POLL_INTERVAL) s))"

text \<open>What \<^verbatim>\<open>monitor_new_pairs\<close> does before the loop.\<close>

definition monitor_start :: "(string \<Rightarrow> bool) \<Rightarrow> state \<Rightarrow> state" where
  "monitor_start snk s =
     (let known0 = load_known_pairs (known_pairs_file s)
      in send_telegram_message snk (startup_text (card known0)) (s\<lparr>known := known0\<rparr>))"

text \<open>The first passes of the endless loop, one environment for each.\<close>

fun run :: "env list \<Rightarrow> state \<Rightarrow> state" where
  "run [] s = s"
| "run (e # es) s = run es (cycle e s)"

definition monitor_new_pairs :: "(string \<Rightarrow> bool) \<Rightarrow> env list \<Rightarrow> state \<Rightarrow> state" where
  "monitor_new_pairs snk es s = run es (monitor_start snk s)"

text \<open>The messages one pass hands to the transport.\<close>

definition notified :: "env \<Rightarrow> state \<Rightarrow> sent list" where
  "notified e s = drop (length (outbox s)) (outbox (cycle e s))"

section \<open>Commands and startup\<close>

definition status_text :: "nat \<Rightarrow> string" where
  "status_text n =
     [CHR 0xF0, CHR 0x9F, CHR 0x93, CHR 0x8A] @ '' Bekannte Paare: '' @ show_nat n @
     [CHR 0x0A] @ ''Polling-Intervall: '' @ show_nat POLL_INTERVAL @ ''s''"

text \<open>\<^verbatim>\<open>status_command\<close>: the reply and the state it leaves.\<close>

definition status_command :: "state \<Rightarrow> string \<times> state" where
  "status_command s = (status_text (card (load_known_pairs (known_pairs_file s))), s)"

text \<open>\<^verbatim>\<open>os.getenv(k) or d\<close>: an unset or empty variable gives the default.\<close>

definition getenv_or :: "(string \<rightharpoonup> string) \<Rightarrow> string \<Rightarrow> string \<Rightarrow> string" where
  "getenv_or environ k d = (case environ k of None \<Rightarrow> d | Some v \<Rightarrow> if v = [] then d else v)"

definition TELEGRAM_BOT_TOKEN :: "(string \<rightharpoonup> string) \<Rightarrow> string" where
  "TELEGRAM_BOT_TOKEN environ =
     getenv_or environ ''TELEGRAM_BOT_TOKEN'' ''DEIN_TELEGRAM_BOT_TOKEN_HIER''"

definition TELEGRAM_CHAT_ID :: "(string \<rightharpoonup> string) \<Rightarrow> string" where
  "TELEGRAM_CHAT_ID environ = getenv_or environ ''TELEGRAM_CHAT_ID'' ''DEINE_CHAT_ID_HIER''"

text \<open>
  How \<^verbatim>\<open>main\<close> gets on: \<^verbatim>\<open>ApplicationBuilder().token(...).build()\<close> raises and nothing
  is started, or the monitoring task is created with the token and chat id in force. The
  library's verdict on a token is the parameter \<open>build\<close>.
\<close>

datatype startup = Aborted | Monitoring string string

definition main :: "(string \<Rightarrow> bool) \<Rightarrow> (string \<rightharpoonup> string) \<Rightarrow> startup" where
  "main build environ =
     (if build (TELEGRAM_BOT_TOKEN environ)
      then Monitoring (TELEGRAM_BOT_TOKEN environ) (TELEGRAM_CHAT_ID environ)
      else Aborted)"

section \<open>Example inputs\<close>

text \<open>
  An answer of the exchange in the shape its interface documents: an object whose
  \<^verbatim>\<open>symbols\<close> array holds one descriptor for each symbol, with its status.
\<close>

definition ticker :: "string \<Rightarrow> string \<Rightarrow> pyval" where
  "ticker symbol status = PyDict [(''symbol'', PyStr symbol), (''status'', PyStr status)]"

definition exchange_info :: "string list \<Rightarrow> http" where
  "exchange_info symbols =
     Body (PyDict [(''timezone'', PyStr ''UTC''),
                   (''symbols'', PyList (map (\<lambda>s. ticker s ''TRADING'') symbols))])"

text \<open>A process that has just been started, before anything was loaded or sent.\<close>

definition fresh :: "file_state \<Rightarrow> nat \<Rightarrow> state" where
  "fresh f t = \<lparr>known = {}, known_pairs_file = f, clock = t, outbox = []\<rparr>"

section \<open>Facts about the Python values\<close>

lemma atom_of_val_of [simp]: "atom_of (val_of a) = Some a"
  by (cases a) simp_all

lemma those_map_Some: "those (map Some xs) = Some xs"
  by (induction xs) simp_all

lemma those_atom_of_val_of: "those (map atom_of (map val_of xs)) = Some xs"
proof -
  have "map atom_of (map val_of xs) = map Some xs" by simp
  then show ?thesis by (simp only: those_map_Some)
qed

lemma py_set_list_of_atoms: "py_set (PyList (map val_of xs)) = Inr (set xs)"
  unfolding py_set_def py_iter.simps sum.case those_atom_of_val_of by simp

lemma py_set_finite: "py_set x = Inr S \<Longrightarrow> finite S"
  by (auto simp: py_set_def split: sum.splits option.splits)

lemma AStr_the_str: "is_str a \<Longrightarrow> AStr (the_str a) = a"
  by (cases a) simp_all

lemma AInt_the_int: "is_int a \<Longrightarrow> AInt (the_int a) = a"
  by (cases a) simp_all

lemma py_sorted_set:
  assumes "finite S" and "py_sorted S = Inr xs"
  shows "set xs = S"
proof (cases "\<forall>a\<in>S. is_str a")
  case True
  with assms have "xs = map AStr (sorted_list_of_set (the_str ` S))"
    by (simp add: py_sorted_def)
  then have "set xs = AStr ` the_str ` S"
    using assms(1) by simp
  also have "\<dots> = S"
    using True by (force simp: image_iff AStr_the_str)
  finally show ?thesis .
next
  case False
  note not_str = this
  show ?thesis
  proof (cases "\<forall>a\<in>S. is_int a")
    case True
    have "xs = map AInt (sorted_list_of_set (the_int ` S))"
      using assms(2) unfolding py_sorted_def if_not_P [OF not_str] if_P [OF True] by simp
    then have "set xs = AInt ` the_int ` S"
      using assms(1) by simp
    also have "\<dots> = S"
      using True by (force simp: image_iff AInt_the_int)
    finally show ?thesis .
  next
    case False
    note not_int = this
    have "(if S = {ANone} then Inr [ANone] else Inl TypeError) = Inr xs"
      using assms(2) unfolding py_sorted_def if_not_P [OF not_str] if_not_P [OF not_int] .
    then show ?thesis
      by (auto split: if_splits)
  qed
qed

lemma py_sorted_strs:
  "\<forall>a\<in>S. is_str a \<Longrightarrow> py_sorted S = Inr (map AStr (sorted_list_of_set (the_str ` S)))"
  by (simp add: py_sorted_def)

lemma load_save_ok:
  assumes "finite S" and "py_sorted S = Inr xs"
  shows "load_known_pairs (save_known_pairs WriteOk S f) = S"
  using assms py_sorted_set [OF assms]
  by (simp add: save_known_pairs_def write_known_pairs_def load_known_pairs_def
      read_known_pairs_def py_set_list_of_atoms)

lemma notify_known [simp]: "known (notify snk now ps s) = known s"
  by (induction ps arbitrary: s) (simp_all add: sleep_def send_telegram_message_def)

lemma notify_file [simp]: "known_pairs_file (notify snk now ps s) = known_pairs_file s"
  by (induction ps arbitrary: s) (simp_all add: sleep_def send_telegram_message_def)

lemma notify_clock: "clock (notify snk now ps s) = clock s + 500 * length ps"
  by (induction ps arbitrary: s) (simp_all add: sleep_def send_telegram_message_def)

lemma notify_outbox:
  "outbox (notify snk now ps s) =
     outbox s @ map (\<lambda>(i, p). \<lparr>sent_at = clock s + 500 * i, body = message p now,
                               delivered = snk (message p now)\<rparr>) (enumerate 0 ps)"
proof (induction ps arbitrary: s)
  case Nil
  show ?case by simp
next
  case (Cons p ps)
  have shift: "enumerate (Suc 0) ps = map (\<lambda>(i, q). (Suc i, q)) (enumerate 0 ps)"
    by (simp add: enumerate_eq_zip map_Suc_upt [symmetric] zip_map1 del: upt_Suc)
  show ?case
    by (simp add: Cons.IH sleep_def send_telegram_message_def shift case_prod_unfold comp_def)
qed

section \<open>Facts about one pass of the loop\<close>

lemma py_sorted_empty: "py_sorted {} = Inr []"
  by (simp add: py_sorted_def)

lemma sleep_simps [simp]:
  "known (sleep ms s) = known s"
  "known_pairs_file (sleep ms s) = known_pairs_file s"
  "outbox (sleep ms s) = outbox s"
  "clock (sleep ms s) = clock s + ms"
  by (simp_all add: sleep_def)

lemma cycle_skip:
  assumes "py_set (PyList (get_all_pairs (answer e))) = Inr current"
    and "current - known s = {}"
  shows "cycle e s = sleep (1000 * POLL_INTERVAL) s"
  using assms by (simp add: cycle_def Let_def)

lemma cycle_commit:
  assumes "py_set (PyList (get_all_pairs (answer e))) = Inr current"
    and "current - known s \<noteq> {}"
    and "py_sorted (current - known s) = Inr ps"
  shows "cycle e s =
           sleep (1000 * POLL_INTERVAL)
             ((notify (sink e) (strftime (clock s div 1000)) ps s)
                \<lparr>known := known s \<union> current,
                 known_pairs_file :=
                   save_known_pairs (disk e) (known s \<union> current) (known_pairs_file s)\<rparr>)"
proof -
  from assms(2) have "current \<noteq> {}" by auto
  with assms show ?thesis
    by (simp add: cycle_def Let_def)
qed

lemma cycle_known_cases:
  "known (cycle e s) = known s \<or>
   (\<exists>current. py_set (PyList (get_all_pairs (answer e))) = Inr current \<and>
      known (cycle e s) = known s \<union> current)"
  by (auto simp: cycle_def Let_def split: sum.splits)

lemma cycle_known_mono: "known s \<subseteq> known (cycle e s)"
  using cycle_known_cases [of e s] by auto

lemma cycle_known_finite: "finite (known s) \<Longrightarrow> finite (known (cycle e s))"
  using cycle_known_cases [of e s] by (auto dest: py_set_finite)

lemma run_known_mono: "known s \<subseteq> known (run es s)"
proof (induction es arbitrary: s)
  case Nil
  show ?case by simp
next
  case (Cons e es)
  have "known s \<subseteq> known (cycle e s)" by (rule cycle_known_mono)
  also have "\<dots> \<subseteq> known (run es (cycle e s))" by (rule Cons.IH)
  finally show ?case by simp
qed

lemma run_known_finite: "finite (known s) \<Longrightarrow> finite (known (run es s))"
  by (induction es arbitrary: s) (simp_all add: cycle_known_finite)

lemma run_append: "run (es @ es') s = run es' (run es s)"
  by (induction es arbitrary: s) simp_all

lemma load_known_pairs_finite: "finite (load_known_pairs f)"
  by (auto simp: load_known_pairs_def read_known_pairs_def
      split: sum.splits error.splits file_state.splits dest: py_set_finite)

lemma monitor_start_known [simp]:
  "known (monitor_start snk s) = load_known_pairs (known_pairs_file s)"
  by (simp add: monitor_start_def Let_def send_telegram_message_def)

lemma get_all_pairs_exchange_info: "get_all_pairs (exchange_info syms) = map PyStr syms"
proof -
  have "trading (map (\<lambda>s. ticker s ''TRADING'') syms) = Inr (map PyStr syms)"
    by (induction syms) (simp_all add: ticker_def upper_char_def)
  then show ?thesis
    by (simp add: get_all_pairs_def fetch_symbols_def exchange_info_def)
qed

lemma fetched_exchange_info:
  "py_set (PyList (get_all_pairs (exchange_info syms))) = Inr (AStr ` set syms)"
proof -
  have "map PyStr syms = map val_of (map AStr syms)" by simp
  then show ?thesis
    unfolding get_all_pairs_exchange_info by (simp only: py_set_list_of_atoms set_map)
qed

lemma cycle_known:
  assumes "py_set (PyList (get_all_pairs (answer e))) = Inr current"
    and "py_sorted (current - known s) = Inr ps"
  shows "known (cycle e s) = known s \<union> current"
proof (cases "current - known s = {}")
  case True
  then have "known s \<union> current = known s" by auto
  with cycle_skip [OF assms(1) True] show ?thesis by simp
next
  case False
  from cycle_commit [OF assms(1) False assms(2)] show ?thesis by simp
qed

lemma cycle_file:
  assumes "py_set (PyList (get_all_pairs (answer e))) = Inr current"
    and "current - known s \<noteq> {}"
    and "py_sorted (current - known s) = Inr ps"
  shows "known_pairs_file (cycle e s) =
           save_known_pairs (disk e) (known s \<union> current) (known_pairs_file s)"
  using cycle_commit [OF assms] by simp

lemma cycle_notified:
  assumes "py_set (PyList (get_all_pairs (answer e))) = Inr current"
    and "py_sorted (current - known s) = Inr ps"
  shows "notified e s =
           map (\<lambda>(i, p). \<lparr>sent_at = clock s + 500 * i,
                          body = message p (strftime (clock s div 1000)),
                          delivered = sink e (message p (strftime (clock s div 1000)))\<rparr>)
             (enumerate 0 ps)"
proof (cases "current - known s = {}")
  case True
  with assms(2) have "ps = []" by (simp add: py_sorted_empty)
  with cycle_skip [OF assms(1) True] show ?thesis by (simp add: notified_def)
next
  case False
  from cycle_commit [OF assms(1) False assms(2)] show ?thesis
    by (simp add: notified_def notify_outbox)
qed

lemma load_known_pairs_unusable [simp]:
  "load_known_pairs Missing = {}"
  "load_known_pairs Unreadable = {}"
  "load_known_pairs Malformed = {}"
  by (simp_all add: load_known_pairs_def read_known_pairs_def)

lemma fresh_simps [simp]:
  "known (fresh f t) = {}"
  "known_pairs_file (fresh f t) = f"
  "clock (fresh f t) = t"
  "outbox (fresh f t) = []"
  by (simp_all add: fresh_def)

section \<open>Round trip of the baseline\<close>

text \<open>
  C7. Round trip: whenever a save of a set \<open>S\<close> goes through without an exception, the
  load that follows returns exactly \<open>S\<close>; and a save of a set of symbol strings, the
  empty set among them, goes through whenever the disk lets it.
\<close>

theorem save_load_round_trip:
  assumes "finite S"
  shows "(fst (write_known_pairs d S f) = None \<longrightarrow>
            load_known_pairs (save_known_pairs d S f) = S) \<and>
         ((\<forall>a\<in>S. is_str a) \<longrightarrow> fst (write_known_pairs WriteOk S f) = None)"
proof (intro conjI impI)
  assume ok: "fst (write_known_pairs d S f) = None"
  then obtain xs where xs: "py_sorted S = Inr xs" and d: "d = WriteOk"
    by (cases d; cases "py_sorted S") (simp_all add: write_known_pairs_def)
  from load_save_ok [OF assms xs] d
  show "load_known_pairs (save_known_pairs d S f) = S" by simp
next
  assume "\<forall>a\<in>S. is_str a"
  then show "fst (write_known_pairs WriteOk S f) = None"
    by (simp add: write_known_pairs_def py_sorted_strs)
qed

theorem save_load_round_trip_witness:
  "finite {AStr ''ETHUSDT'', AStr ''BTCUSDT''} \<and>
   is_str (AStr ''ETHUSDT'') \<and> is_str (AStr ''BTCUSDT'') \<and>
   fst (write_known_pairs WriteOk {AStr ''ETHUSDT'', AStr ''BTCUSDT''} Missing) = None \<and>
   load_known_pairs (save_known_pairs WriteOk {AStr ''ETHUSDT'', AStr ''BTCUSDT''} Missing) =
     {AStr ''ETHUSDT'', AStr ''BTCUSDT''} \<and>
   load_known_pairs (save_known_pairs WriteOk {} Malformed) = {}"
proof -
  have fin: "finite {AStr ''ETHUSDT'', AStr ''BTCUSDT''}" by simp
  have strs: "\<forall>a\<in>{AStr ''ETHUSDT'', AStr ''BTCUSDT''}. is_str a" by simp
  have strs0: "\<forall>a\<in>{}::atom set. is_str a" by simp
  from save_load_round_trip [OF fin, of WriteOk Missing] strs
    save_load_round_trip [of "{}" WriteOk Malformed] strs0 fin
  show ?thesis by simp
qed

section \<open>What one pass detects\<close>

text \<open>
  C8. Monotonicity: over any sequence of passes of the loop in one process, from the
  start of \<^verbatim>\<open>monitor_new_pairs\<close> on, the Known-Set after more passes contains the
  Known-Set after fewer, and its size is not smaller; no single pass removes an identifier.
\<close>

theorem known_set_only_grows:
  "known (monitor_new_pairs snk es s) \<subseteq> known (monitor_new_pairs snk (es @ es') s) \<and>
   card (known (monitor_new_pairs snk es s)) \<le>
     card (known (monitor_new_pairs snk (es @ es') s)) \<and>
   known s \<subseteq> known (cycle e s)"
proof -
  let ?a = "monitor_new_pairs snk es s"
  let ?b = "monitor_new_pairs snk (es @ es') s"
  have b: "?b = run es' ?a"
    by (simp add: monitor_new_pairs_def run_append)
  have sub: "known ?a \<subseteq> known ?b"
    unfolding b by (rule run_known_mono)
  have "finite (known (monitor_start snk s))"
    by (simp add: load_known_pairs_finite)
  then have "finite (known ?b)"
    unfolding monitor_new_pairs_def by (rule run_known_finite)
  with sub have "card (known ?a) \<le> card (known ?b)"
    by (rule card_mono [rotated])
  with sub cycle_known_mono show ?thesis by blast
qed

theorem known_set_only_grows_witness:
  "known (monitor_new_pairs (\<lambda>t. True)
     [\<lparr>answer = exchange_info [''BTCUSDT'', ''ETHUSDT''], sink = \<lambda>t. True, disk = WriteOk\<rparr>]
     (fresh Missing 0)) = {AStr ''BTCUSDT'', AStr ''ETHUSDT''} \<and>
   known (monitor_new_pairs (\<lambda>t. True)
     ([\<lparr>answer = exchange_info [''BTCUSDT'', ''ETHUSDT''], sink = \<lambda>t. True, disk = WriteOk\<rparr>] @
      [\<lparr>answer = exchange_info [''BTCUSDT'', ''SOLUSDT''], sink = \<lambda>t. False, disk = WriteFails\<rparr>])
     (fresh Missing 0)) = {AStr ''BTCUSDT'', AStr ''ETHUSDT'', AStr ''SOLUSDT''} \<and>
   {AStr ''BTCUSDT'', AStr ''ETHUSDT''} \<subseteq> {AStr ''BTCUSDT'', AStr ''ETHUSDT'', AStr ''SOLUSDT''} \<and>
   card {AStr ''BTCUSDT'', AStr ''ETHUSDT''} \<le>
     card {AStr ''BTCUSDT'', AStr ''ETHUSDT'', AStr ''SOLUSDT''}"
proof -
  let ?e1 = "\<lparr>answer = exchange_info [''BTCUSDT'', ''ETHUSDT''], sink = \<lambda>t. True, disk = WriteOk\<rparr>"
  let ?e2 = "\<lparr>answer = exchange_info [''BTCUSDT'', ''SOLUSDT''], sink = \<lambda>t. False, disk = WriteFails\<rparr>"
  let ?s0 = "monitor_start (\<lambda>t. True) (fresh Missing 0)"
  have k0: "known ?s0 = {}"
    by simp
  have k1: "known (cycle ?e1 ?s0) = {AStr ''BTCUSDT'', AStr ''ETHUSDT''}"
    by (subst cycle_known [where current = "AStr ` set [''BTCUSDT'', ''ETHUSDT'']"])
      (simp_all add: fetched_exchange_info k0 py_sorted_strs)
  have k2: "known (cycle ?e2 (cycle ?e1 ?s0)) = {AStr ''BTCUSDT'', AStr ''ETHUSDT'', AStr ''SOLUSDT''}"
    by (subst cycle_known [where current = "AStr ` set [''BTCUSDT'', ''SOLUSDT'']"])
      (auto simp: fetched_exchange_info k1 py_sorted_strs)
  have a: "known (monitor_new_pairs (\<lambda>t. True) [?e1] (fresh Missing 0)) =
             {AStr ''BTCUSDT'', AStr ''ETHUSDT''}"
    by (simp add: monitor_new_pairs_def k1)
  have b: "known (monitor_new_pairs (\<lambda>t. True) ([?e1] @ [?e2]) (fresh Missing 0)) =
             {AStr ''BTCUSDT'', AStr ''ETHUSDT'', AStr ''SOLUSDT''}"
    by (simp add: monitor_new_pairs_def k1 k2)
  from known_set_only_grows [of "\<lambda>t. True" "[?e1]" "fresh Missing 0" "[?e2]"] a b
  show ?thesis by simp
qed

lemma py_sorted_distinct:
  assumes "py_sorted S = Inr xs"
  shows "distinct xs"
proof -
  have "distinct (map AStr (sorted_list_of_set A))" for A :: "string set"
    by (simp add: distinct_map inj_on_def)
  moreover have "distinct (map AInt (sorted_list_of_set B))" for B :: "int set"
    by (simp add: distinct_map inj_on_def)
  ultimately show ?thesis
    using assms by (auto simp: py_sorted_def split: if_splits)
qed

lemma map_enumerate_snd: "map (\<lambda>x. f (snd x)) (enumerate n ps) = map f ps"
  by (induction ps arbitrary: n) simp_all

lemmas strftime_defs =
  strftime_def civil_def civil_of_year_def civil_of_day_def civil_of_month_def
  day_of_year_def year_of_era_def pad2_def digit_def show_nat.simps

lemma strftime_epoch:
  "strftime 0 = ''1970-01-01 00:00:00''"
  "strftime 1 = ''1970-01-01 00:00:01''"
  "strftime (Suc 0) = ''1970-01-01 00:00:01''"
  by (simp_all add: strftime_defs)

lemma sorted_list_of_set_sorted:
  "sorted xs \<Longrightarrow> distinct xs \<Longrightarrow> sorted_list_of_set (set xs) = xs"
  by (simp add: sorted_list_of_set.idem_if_sorted_distinct)

lemma py_sorted_strings:
  assumes "sorted xs" and "distinct xs"
  shows "py_sorted (AStr ` set xs) = Inr (map AStr xs)"
proof -
  have "the_str ` AStr ` set xs = set xs"
    by (simp add: image_image)
  then show ?thesis
    using assms by (simp add: py_sorted_strs sorted_list_of_set_sorted)
qed



lemma cycle_sink_known: "known (cycle (e\<lparr>sink := snk\<rparr>) s) = known (cycle e s)"
  by (simp add: cycle_def Let_def split: sum.splits)

lemma cycle_sink_file:
  "known_pairs_file (cycle (e\<lparr>sink := snk\<rparr>) s) = known_pairs_file (cycle e s)"
  by (simp add: cycle_def Let_def split: sum.splits)

lemma notify_bodies:
  "map body (outbox (notify snk now ps s)) = map body (outbox s) @ map (\<lambda>p. message p now) ps"
  by (induction ps arbitrary: s) (simp_all add: sleep_def send_telegram_message_def)

lemma cycle_sink_bodies:
  "map body (outbox (cycle (e\<lparr>sink := snk\<rparr>) s)) = map body (outbox (cycle e s))"
  by (simp add: cycle_def Let_def notify_bodies split: sum.splits)

lemma outbox_grows: "length (outbox s) \<le> length (outbox (cycle e s))"
  by (simp add: cycle_def Let_def notify_outbox split: sum.splits)

subsection \<open>Delivery failures\<close>

text \<open>
  C6. Partial-failure isolation: whatever the transport does to each message of a pass,
  the pass hands over the same messages and ends with the same Known-Set and the same
  baseline file as with any other transport; and it hands over one message for each new
  identifier, with the delivery results the transport gave, and ends with every fetched
  identifier in the Known-Set and in the save.
\<close>

theorem delivery_failure_isolated:
  assumes fetched: "py_set (PyList (get_all_pairs (answer e))) = Inr current"
    and sortable: "py_sorted (current - known s) = Inr ps"
  shows "map body (notified (e\<lparr>sink := snk\<rparr>) s) =
           map (\<lambda>p. message p (strftime (clock s div 1000))) ps \<and>
         map delivered (notified (e\<lparr>sink := snk\<rparr>) s) =
           map (\<lambda>p. snk (message p (strftime (clock s div 1000)))) ps \<and>
         length (notified (e\<lparr>sink := snk\<rparr>) s) = card (current - known s) \<and>
         known (cycle (e\<lparr>sink := snk\<rparr>) s) = known s \<union> current \<and>
         known_pairs_file (cycle (e\<lparr>sink := snk\<rparr>) s) = known_pairs_file (cycle e s) \<and>
         (current - known s \<noteq> {} \<longrightarrow>
            known_pairs_file (cycle (e\<lparr>sink := snk\<rparr>) s) =
              save_known_pairs (disk e) (known s \<union> current) (known_pairs_file s))"
proof -
  let ?e = "e\<lparr>sink := snk\<rparr>"
  let ?now = "strftime (clock s div 1000)"
  have fetched': "py_set (PyList (get_all_pairs (answer ?e))) = Inr current"
    using fetched by simp
  have fin: "finite (current - known s)"
    using py_set_finite [OF fetched] by simp
  have elems: "set ps = current - known s"
    by (rule py_sorted_set [OF fin sortable])
  have once: "distinct ps"
    by (rule py_sorted_distinct [OF sortable])
  have bodies: "map body (notified ?e s) = map (\<lambda>p. message p ?now) ps"
    unfolding cycle_notified [OF fetched' sortable]
    by (simp add: comp_def case_prod_unfold map_enumerate_snd [of "\<lambda>p. message p ?now"])
  have results: "map delivered (notified ?e s) = map (\<lambda>p. snk (message p ?now)) ps"
    unfolding cycle_notified [OF fetched' sortable]
    by (simp add: comp_def case_prod_unfold
        map_enumerate_snd [of "\<lambda>p. snk (message p ?now)"])
  have "length (notified ?e s) = length ps"
    unfolding cycle_notified [OF fetched' sortable] by simp
  also have "\<dots> = card (set ps)"
    using once by (simp add: distinct_card)
  finally have count: "length (notified ?e s) = card (current - known s)"
    by (simp only: elems)
  have grown: "known (cycle ?e s) = known s \<union> current"
    by (rule cycle_known [OF fetched' sortable])
  have same: "known_pairs_file (cycle ?e s) = known_pairs_file (cycle e s)"
    by (rule cycle_sink_file)
  have stored: "current - known s \<noteq> {} \<longrightarrow>
      known_pairs_file (cycle ?e s) =
        save_known_pairs (disk e) (known s \<union> current) (known_pairs_file s)"
    using cycle_file [OF fetched' _ sortable] by simp
  from bodies results count grown same stored show ?thesis
    by (intro conjI)
qed

theorem delivery_failure_isolated_witness:
  "map delivered
     (notified \<lparr>answer = exchange_info [''ADAUSDT'', ''BNBUSDT'', ''SOLUSDT''],
                sink = \<lambda>t. t \<noteq> message (AStr ''BNBUSDT'') ''1970-01-01 00:00:00'',
                disk = WriteOk\<rparr>
        (fresh Missing 0)) = [True, False, True] \<and>
   map body
     (notified \<lparr>answer = exchange_info [''ADAUSDT'', ''BNBUSDT'', ''SOLUSDT''],
                sink = \<lambda>t. t \<noteq> message (AStr ''BNBUSDT'') ''1970-01-01 00:00:00'',
                disk = WriteOk\<rparr>
        (fresh Missing 0)) =
     [message (AStr ''ADAUSDT'') ''1970-01-01 00:00:00'',
      message (AStr ''BNBUSDT'') ''1970-01-01 00:00:00'',
      message (AStr ''SOLUSDT'') ''1970-01-01 00:00:00''] \<and>
   known
     (cycle \<lparr>answer = exchange_info [''ADAUSDT'', ''BNBUSDT'', ''SOLUSDT''],
             sink = \<lambda>t. t \<noteq> message (AStr ''BNBUSDT'') ''1970-01-01 00:00:00'',
             disk = WriteOk\<rparr>
        (fresh Missing 0)) = {AStr ''ADAUSDT'', AStr ''BNBUSDT'', AStr ''SOLUSDT''} \<and>
   known_pairs_file
     (cycle \<lparr>answer = exchange_info [''ADAUSDT'', ''BNBUSDT'', ''SOLUSDT''],
             sink = \<lambda>t. t \<noteq> message (AStr ''BNBUSDT'') ''1970-01-01 00:00:00'',
             disk = WriteOk\<rparr>
        (fresh Missing 0)) =
     Json (PyDict [(''pairs'', PyList [PyStr ''ADAUSDT'', PyStr ''BNBUSDT'', PyStr ''SOLUSDT''])])"
proof -
  let ?snk = "\<lambda>t. t \<noteq> message (AStr ''BNBUSDT'') ''1970-01-01 00:00:00''"
  let ?e = "\<lparr>answer = exchange_info [''ADAUSDT'', ''BNBUSDT'', ''SOLUSDT''],
             sink = ?snk, disk = WriteOk\<rparr>"
  let ?s = "fresh Missing 0"
  let ?current = "{AStr ''ADAUSDT'', AStr ''BNBUSDT'', AStr ''SOLUSDT''}"
  let ?ps = "[AStr ''ADAUSDT'', AStr ''BNBUSDT'', AStr ''SOLUSDT'']"
  have fetched: "py_set (PyList (get_all_pairs (answer ?e))) = Inr ?current"
    by (simp add: fetched_exchange_info)
  have new: "?current - known ?s = ?current"
    by simp
  have srt: "py_sorted ?current = Inr ?ps"
    using py_sorted_strings [of "[''ADAUSDT'', ''BNBUSDT'', ''SOLUSDT'']"]
    by (simp add: less_eq_char_def less_char_def)
  have sortable: "py_sorted (?current - known ?s) = Inr ?ps"
    unfolding new by (rule srt)
  have e: "?e\<lparr>sink := ?snk\<rparr> = ?e"
    by simp
  note facts = delivery_failure_isolated [OF fetched sortable, of ?snk, unfolded e]
  have "map delivered (notified ?e ?s) =
      map (\<lambda>p. ?snk (message p (strftime (clock ?s div 1000)))) ?ps"
    by (rule facts [THEN conjunct2, THEN conjunct1])
  then have results: "map delivered (notified ?e ?s) = [True, False, True]"
    by (simp add: strftime_epoch message_def)
  have "map body (notified ?e ?s) = map (\<lambda>p. message p (strftime (clock ?s div 1000))) ?ps"
    by (rule facts [THEN conjunct1])
  then have bodies: "map body (notified ?e ?s) =
      [message (AStr ''ADAUSDT'') ''1970-01-01 00:00:00'',
       message (AStr ''BNBUSDT'') ''1970-01-01 00:00:00'',
       message (AStr ''SOLUSDT'') ''1970-01-01 00:00:00'']"
    by (simp add: strftime_epoch)
  have "known (cycle ?e ?s) = known ?s \<union> ?current"
    by (rule facts [THEN conjunct2, THEN conjunct2, THEN conjunct2, THEN conjunct1])
  then have grown: "known (cycle ?e ?s) = ?current"
    by simp
  have nonempty: "?current - known ?s \<noteq> {}"
    by simp
  have "known_pairs_file (cycle ?e ?s) =
      save_known_pairs (disk ?e) (known ?s \<union> ?current) (known_pairs_file ?s)"
    by (rule facts [THEN conjunct2, THEN conjunct2, THEN conjunct2, THEN conjunct2,
          THEN conjunct2, THEN mp, OF nonempty])
  then have "known_pairs_file (cycle ?e ?s) = save_known_pairs WriteOk ?current Missing"
    by simp
  then have stored: "known_pairs_file (cycle ?e ?s) =
      Json (PyDict [(''pairs'', PyList [PyStr ''ADAUSDT'', PyStr ''BNBUSDT'', PyStr ''SOLUSDT''])])"
    unfolding save_known_pairs_def write_known_pairs_def srt by simp
  from results bodies grown stored show ?thesis
    by (intro conjI)
qed

subsection \<open>The timestamp of a notification\<close>

lemma three_new_messages:
  "notified \<lparr>answer = exchange_info [''ADAUSDT'', ''BNBUSDT'', ''SOLUSDT''],
             sink = snk, disk = d\<rparr> (fresh f 0) =
     [\<lparr>sent_at = 0, body = message (AStr ''ADAUSDT'') ''1970-01-01 00:00:00'',
       delivered = snk (message (AStr ''ADAUSDT'') ''1970-01-01 00:00:00'')\<rparr>,
      \<lparr>sent_at = 500, body = message (AStr ''BNBUSDT'') ''1970-01-01 00:00:00'',
       delivered = snk (message (AStr ''BNBUSDT'') ''1970-01-01 00:00:00'')\<rparr>,
      \<lparr>sent_at = 1000, body = message (AStr ''SOLUSDT'') ''1970-01-01 00:00:00'',
       delivered = snk (message (AStr ''SOLUSDT'') ''1970-01-01 00:00:00'')\<rparr>]"
proof -
  let ?e = "\<lparr>answer = exchange_info [''ADAUSDT'', ''BNBUSDT'', ''SOLUSDT''],
             sink = snk, disk = d\<rparr>"
  let ?current = "{AStr ''ADAUSDT'', AStr ''BNBUSDT'', AStr ''SOLUSDT''}"
  let ?ps = "[AStr ''ADAUSDT'', AStr ''BNBUSDT'', AStr ''SOLUSDT'']"
  have fetched: "py_set (PyList (get_all_pairs (answer ?e))) = Inr ?current"
    by (simp add: fetched_exchange_info)
  have new: "?current - known (fresh f 0) = ?current"
    by simp
  have srt: "py_sorted ?current = Inr ?ps"
    using py_sorted_strings [of "[''ADAUSDT'', ''BNBUSDT'', ''SOLUSDT'']"]
    by (simp add: less_eq_char_def less_char_def)
  have sortable: "py_sorted (?current - known (fresh f 0)) = Inr ?ps"
    unfolding new by (rule srt)
  show ?thesis
    unfolding cycle_notified [OF fetched sortable]
    by (simp add: strftime_epoch)
qed

text \<open>
  C5, as stated, fails: of three new identifiers the third is formatted one second after
  the first, at 00:00:01 when the pass began at 00:00:00, and its text still carries
  00:00:00.
\<close>

theorem timestamp_at_formatting_time_counterexample:
  "sent_at (notified \<lparr>answer = exchange_info [''ADAUSDT'', ''BNBUSDT'', ''SOLUSDT''],
                      sink = \<lambda>t. True, disk = WriteOk\<rparr> (fresh Missing 0) ! 2) = 1000 \<and>
   strftime (1000 div 1000) = ''1970-01-01 00:00:01'' \<and>
   body (notified \<lparr>answer = exchange_info [''ADAUSDT'', ''BNBUSDT'', ''SOLUSDT''],
                   sink = \<lambda>t. True, disk = WriteOk\<rparr> (fresh Missing 0) ! 2) =
     message (AStr ''SOLUSDT'') ''1970-01-01 00:00:00'' \<and>
   body (notified \<lparr>answer = exchange_info [''ADAUSDT'', ''BNBUSDT'', ''SOLUSDT''],
                   sink = \<lambda>t. True, disk = WriteOk\<rparr> (fresh Missing 0) ! 2) \<noteq>
     message (AStr ''SOLUSDT'') ''1970-01-01 00:00:01''"
  unfolding three_new_messages by (simp add: strftime_epoch message_def)

text \<open>
  C5, amended: every message of one pass carries the identifier, the exchange label and
  one and the same UTC timestamp, taken once before the first message is formatted; the
  message number \<open>i\<close> is handed over \<open>i\<close> half seconds after that.
\<close>

theorem cycle_messages_share_timestamp:
  assumes fetched: "py_set (PyList (get_all_pairs (answer e))) = Inr current"
    and sortable: "py_sorted (current - known s) = Inr ps"
  shows "length (notified e s) = length ps \<and>
         (\<forall>i<length ps.
            body (notified e s ! i) = message (ps ! i) (strftime (clock s div 1000)) \<and>
            sent_at (notified e s ! i) = clock s + 500 * i)"
  unfolding cycle_notified [OF fetched sortable]
  by (simp add: nth_enumerate_eq)

theorem cycle_messages_share_timestamp_witness:
  "body (notified \<lparr>answer = exchange_info [''ADAUSDT'', ''BNBUSDT'', ''SOLUSDT''],
                   sink = \<lambda>t. True, disk = WriteOk\<rparr> (fresh Missing 0) ! 1) =
     message (AStr ''BNBUSDT'') ''1970-01-01 00:00:00'' \<and>
   sent_at (notified \<lparr>answer = exchange_info [''ADAUSDT'', ''BNBUSDT'', ''SOLUSDT''],
                      sink = \<lambda>t. True, disk = WriteOk\<rparr> (fresh Missing 0) ! 1) = 500 \<and>
   message (AStr ''BNBUSDT'') ''1970-01-01 00:00:00'' =
     [CHR 0xF0, CHR 0x9F, CHR 0x86, CHR 0x95] @ '' Neues Pair entdeckt: <b>BNBUSDT</b>'' @
     [CHR 0x0A] @ ''Exchange: Binance'' @ [CHR 0x0A] @ ''Zeit (UTC): 1970-01-01 00:00:00''"
proof -
  let ?e = "\<lparr>answer = exchange_info [''ADAUSDT'', ''BNBUSDT'', ''SOLUSDT''],
             sink = \<lambda>t. True, disk = WriteOk\<rparr>"
  let ?s = "fresh Missing 0"
  let ?current = "{AStr ''ADAUSDT'', AStr ''BNBUSDT'', AStr ''SOLUSDT''}"
  let ?ps = "[AStr ''ADAUSDT'', AStr ''BNBUSDT'', AStr ''SOLUSDT'']"
  have fetched: "py_set (PyList (get_all_pairs (answer ?e))) = Inr ?current"
    by (simp add: fetched_exchange_info)
  have new: "?current - known ?s = ?current"
    by simp
  have srt: "py_sorted ?current = Inr ?ps"
    using py_sorted_strings [of "[''ADAUSDT'', ''BNBUSDT'', ''SOLUSDT'']"]
    by (simp add: less_eq_char_def less_char_def)
  have sortable: "py_sorted (?current - known ?s) = Inr ?ps"
    unfolding new by (rule srt)
  have "1 < length ?ps"
    by simp
  with cycle_messages_share_timestamp [OF fetched sortable]
  have "body (notified ?e ?s ! 1) = message (?ps ! 1) (strftime (clock ?s div 1000)) \<and>
        sent_at (notified ?e ?s ! 1) = clock ?s + 500 * 1"
    by blast
  then have "body (notified ?e ?s ! 1) = message (AStr ''BNBUSDT'') ''1970-01-01 00:00:00'' \<and>
        sent_at (notified ?e ?s ! 1) = 500"
    by (simp add: strftime_epoch)
  moreover have "message (AStr ''BNBUSDT'') ''1970-01-01 00:00:00'' =
     [CHR 0xF0, CHR 0x9F, CHR 0x86, CHR 0x95] @ '' Neues Pair entdeckt: <b>BNBUSDT</b>'' @
     [CHR 0x0A] @ ''Exchange: Binance'' @ [CHR 0x0A] @ ''Zeit (UTC): 1970-01-01 00:00:00''"
    by (simp add: message_def)
  ultimately show ?thesis by simp
qed

section \<open>Loading and saving under failure\<close>

lemma read_known_pairs_raises:
  "read_known_pairs f = Inl err \<Longrightarrow> load_known_pairs f = {}"
  by (simp add: load_known_pairs_def split: error.splits)

lemma load_known_pairs_not_an_object:
  "load_known_pairs (Json PyNone) = {}"
  "load_known_pairs (Json (PyInt i)) = {}"
  "load_known_pairs (Json (PyStr t)) = {}"
  "load_known_pairs (Json (PyList xs)) = {}"
  by (simp_all add: load_known_pairs_def read_known_pairs_def)

lemma load_known_pairs_not_iterable:
  "map_of kvs ''pairs'' = Some PyNone \<Longrightarrow> load_known_pairs (Json (PyDict kvs)) = {}"
  "map_of kvs ''pairs'' = Some (PyInt i) \<Longrightarrow> load_known_pairs (Json (PyDict kvs)) = {}"
  "map_of kvs ''pairs'' = None \<Longrightarrow> load_known_pairs (Json (PyDict kvs)) = {}"
  by (simp_all add: load_known_pairs_def read_known_pairs_def py_set_def)

text \<open>
  The first pass after a load that returned the empty set reports every symbol of a
  well-formed answer as new.
\<close>

lemma first_cycle_reports_all:
  assumes "load_known_pairs (known_pairs_file s) = {}"
    and "sorted syms" and "distinct syms"
  shows "map body (notified \<lparr>answer = exchange_info syms, sink = snk, disk = d\<rparr>
           (monitor_start snk0 s)) =
         map (\<lambda>p. message (AStr p) (strftime (clock s div 1000))) syms"
proof -
  let ?e = "\<lparr>answer = exchange_info syms, sink = snk, disk = d\<rparr>"
  let ?s = "monitor_start snk0 s"
  have fetched: "py_set (PyList (get_all_pairs (answer ?e))) = Inr (AStr ` set syms)"
    by (simp add: fetched_exchange_info)
  have "AStr ` set syms - known ?s = AStr ` set syms"
    using assms(1) by simp
  then have sortable: "py_sorted (AStr ` set syms - known ?s) = Inr (map AStr syms)"
    using py_sorted_strings [OF assms(2,3)] by simp
  have clock: "clock ?s = clock s"
    by (simp add: monitor_start_def Let_def send_telegram_message_def)
  show ?thesis
    unfolding cycle_notified [OF fetched sortable] clock
    by (simp add: comp_def case_prod_unfold
        map_enumerate_snd [of "\<lambda>p. message (AStr p) (strftime (clock s div 1000))"]
        map_enumerate_snd [of "\<lambda>p. message p (strftime (clock s div 1000))"])
qed

text \<open>
  C2. The claim holds for a file that is missing, unreadable or not a JSON document, and
  for every document on which the extraction raises (the lemmas above). It fails on a
  document of another shape whose \<^verbatim>\<open>pairs\<close> entry can be iterated: for
  \<^verbatim>\<open>{"pairs": "BTCUSDT"}\<close> the load returns the six letters of the string, not the
  empty set, and for \<^verbatim>\<open>{"pairs": [1, 2]}\<close> it returns the two numbers, which are no
  strings.
\<close>

theorem load_known_pairs_wrong_shape:
  "load_known_pairs (Json (PyDict [(''pairs'', PyStr ''BTCUSDT'')])) =
     {AStr ''B'', AStr ''T'', AStr ''C'', AStr ''U'', AStr ''S'', AStr ''D''} \<and>
   load_known_pairs (Json (PyDict [(''pairs'', PyStr ''BTCUSDT'')])) \<noteq> {} \<and>
   load_known_pairs (Json (PyDict [(''pairs'', PyList [PyInt 1, PyInt 2])])) =
     {AInt 1, AInt 2}"
  by (auto simp: load_known_pairs_def read_known_pairs_def py_set_def)

text \<open>
  C1, as stated, fails: a save that is interrupted after \<^verbatim>\<open>open\<close> has emptied the file
  leaves a file that is not a document, and the load that follows returns the empty set,
  which no save has written; the one save that went through wrote BTCUSDT.
\<close>

theorem save_not_atomic_counterexample:
  "fst (write_known_pairs WriteOk {AStr ''BTCUSDT''} Missing) = None \<and>
   load_known_pairs (save_known_pairs WriteOk {AStr ''BTCUSDT''} Missing) = {AStr ''BTCUSDT''} \<and>
   save_known_pairs WriteFails {AStr ''BTCUSDT'', AStr ''SOLUSDT''}
     (save_known_pairs WriteOk {AStr ''BTCUSDT''} Missing) = Malformed \<and>
   load_known_pairs
     (save_known_pairs WriteFails {AStr ''BTCUSDT'', AStr ''SOLUSDT''}
        (save_known_pairs WriteOk {AStr ''BTCUSDT''} Missing)) = {} \<and>
   ({}::atom set) \<noteq> {AStr ''BTCUSDT''}"
  by (simp add: save_known_pairs_def write_known_pairs_def py_sorted_strs
      load_known_pairs_def read_known_pairs_def py_set_def)

text \<open>
  The same happens with no fault of the disk when the set cannot be sorted, as a set with
  \<^verbatim>\<open>None\<close> and a string cannot: \<^verbatim>\<open>sorted\<close> raises inside the \<^verbatim>\<open>with\<close>, after
  \<^verbatim>\<open>open\<close> has emptied the file.
\<close>

lemma save_unsortable_empties_file:
  "save_known_pairs WriteOk {ANone, AStr ''BTCUSDT''}
     (Json (PyDict [(''pairs'', PyList [PyNone])])) = Malformed"
proof -
  have "py_sorted {ANone, AStr ''BTCUSDT''} = Inl TypeError"
    by (auto simp: py_sorted_def)
  then show ?thesis
    by (simp add: save_known_pairs_def write_known_pairs_def)
qed

text \<open>
  C1, amended: a save rewrites the baseline file in place. When the file cannot be opened
  it is left as it was. When the save is interrupted, or raises, after the file was opened,
  the file is left empty or cut off and the next load returns the empty set. When the save
  goes through, the next load returns exactly the set saved.
\<close>

theorem save_known_pairs_in_place:
  assumes "finite S"
  shows "save_known_pairs OpenFails S f = f \<and>
         save_known_pairs WriteFails S f = Malformed \<and>
         load_known_pairs (save_known_pairs d S f) =
           (case d of
              OpenFails \<Rightarrow> load_known_pairs f
            | WriteFails \<Rightarrow> {}
            | WriteOk \<Rightarrow> (case py_sorted S of Inl err \<Rightarrow> {} | Inr xs \<Rightarrow> S))"
proof (intro conjI)
  show "save_known_pairs OpenFails S f = f"
    by (simp add: save_known_pairs_def write_known_pairs_def)
  show "save_known_pairs WriteFails S f = Malformed"
    by (simp add: save_known_pairs_def write_known_pairs_def split: sum.splits)
  show "load_known_pairs (save_known_pairs d S f) =
          (case d of
             OpenFails \<Rightarrow> load_known_pairs f
           | WriteFails \<Rightarrow> {}
           | WriteOk \<Rightarrow> (case py_sorted S of Inl err \<Rightarrow> {} | Inr xs \<Rightarrow> S))"
  proof (cases d)
    case WriteOk
    show ?thesis
    proof (cases "py_sorted S")
      case (Inl err)
      with WriteOk show ?thesis
        by (simp add: save_known_pairs_def write_known_pairs_def)
    next
      case (Inr xs)
      with WriteOk load_save_ok [OF assms Inr, of f] show ?thesis
        by simp
    qed
  next
    case OpenFails
    then show ?thesis
      by (simp add: save_known_pairs_def write_known_pairs_def)
  next
    case WriteFails
    then show ?thesis
      by (simp add: save_known_pairs_def write_known_pairs_def split: sum.splits)
  qed
qed

theorem save_known_pairs_in_place_witness:
  "finite {AStr ''BTCUSDT'', AStr ''SOLUSDT''} \<and>
   load_known_pairs
     (save_known_pairs WriteOk {AStr ''BTCUSDT'', AStr ''SOLUSDT''} Malformed) =
     {AStr ''BTCUSDT'', AStr ''SOLUSDT''} \<and>
   load_known_pairs
     (save_known_pairs OpenFails {AStr ''BTCUSDT'', AStr ''SOLUSDT''}
        (Json (PyDict [(''pairs'', PyList [PyStr ''BTCUSDT''])]))) = {AStr ''BTCUSDT''} \<and>
   load_known_pairs
     (save_known_pairs WriteFails {AStr ''BTCUSDT'', AStr ''SOLUSDT''}
        (Json (PyDict [(''pairs'', PyList [PyStr ''BTCUSDT''])]))) = {}"
proof -
  let ?S = "{AStr ''BTCUSDT'', AStr ''SOLUSDT''}"
  let ?f = "Json (PyDict [(''pairs'', PyList [PyStr ''BTCUSDT''])])"
  have fin: "finite ?S" by simp
  have srt: "py_sorted ?S = Inr (map AStr (sorted_list_of_set {''BTCUSDT'', ''SOLUSDT''}))"
    by (simp add: py_sorted_strs)
  have old: "load_known_pairs ?f = {AStr ''BTCUSDT''}"
    by (simp add: load_known_pairs_def read_known_pairs_def py_set_def)
  from save_known_pairs_in_place [OF fin, of Malformed WriteOk] srt
  have a: "load_known_pairs (save_known_pairs WriteOk ?S Malformed) = ?S"
    by simp
  from save_known_pairs_in_place [OF fin, of ?f OpenFails] old
  have b: "load_known_pairs (save_known_pairs OpenFails ?S ?f) = {AStr ''BTCUSDT''}"
    by simp
  from save_known_pairs_in_place [OF fin, of ?f WriteFails]
  have c: "load_known_pairs (save_known_pairs WriteFails ?S ?f) = {}"
    by simp
  from fin a b c show ?thesis by (intro conjI)
qed

section \<open>What the listing source returns\<close>

lemma trading_Cons:
  "trading (s # ss) = Inr syms \<Longrightarrow> \<exists>rest. trading ss = Inr rest \<and> set rest \<subseteq> set syms"
  by (auto split: sum.splits if_splits)

lemma trading_keeps_missing_symbol:
  assumes "trading ss = Inr syms"
    and "PyDict kvs \<in> set ss"
    and "map_of kvs ''status'' = Some (PyStr st)"
    and "map upper_char st = ''TRADING''"
    and "map_of kvs ''symbol'' = None"
  shows "PyNone \<in> set syms"
  using assms(1,2)
proof (induction ss arbitrary: syms)
  case Nil
  then show ?case by simp
next
  case (Cons s ss)
  show ?case
  proof (cases "s = PyDict kvs")
    case True
    with Cons.prems(1) assms(3,4,5) show ?thesis
      by (auto split: sum.splits)
  next
    case False
    with Cons.prems(2) have mem: "PyDict kvs \<in> set ss" by simp
    from trading_Cons [OF Cons.prems(1)] obtain rest where rest: "trading ss = Inr rest"
      and sub: "set rest \<subseteq> set syms"
      by blast
    from Cons.IH [OF rest mem] sub show ?thesis by auto
  qed
qed

text \<open>
  C9. When the comprehension of \<^verbatim>\<open>get_all_pairs\<close> raises nothing and the \<^verbatim>\<open>symbols\<close>
  array holds a descriptor whose status is TRADING in some letter case and which has no
  \<^verbatim>\<open>symbol\<close> field, the returned list contains \<^verbatim>\<open>None\<close>, and so does the set the loop
  builds from it, which is then no set of strings.
\<close>

theorem get_all_pairs_returns_None:
  assumes "map_of payload ''symbols'' = Some (PyList ss)"
    and "trading ss = Inr syms"
    and "PyDict kvs \<in> set ss"
    and "map_of kvs ''status'' = Some (PyStr st)"
    and "map upper_char st = ''TRADING''"
    and "map_of kvs ''symbol'' = None"
  shows "get_all_pairs (Body (PyDict payload)) = syms \<and> PyNone \<in> set syms \<and>
         (\<forall>S. py_set (PyList (get_all_pairs (Body (PyDict payload)))) = Inr S \<longrightarrow>
            ANone \<in> S \<and> \<not> (\<forall>a\<in>S. is_str a))"
proof -
  have list: "get_all_pairs (Body (PyDict payload)) = syms"
    using assms(1,2) by (simp add: get_all_pairs_def fetch_symbols_def)
  have none: "PyNone \<in> set syms"
    by (rule trading_keeps_missing_symbol [OF assms(2-6)])
  have "ANone \<in> S \<and> \<not> (\<forall>a\<in>S. is_str a)" if "py_set (PyList syms) = Inr S" for S
  proof -
    from that obtain as where as: "those (map atom_of syms) = Some as" and S: "S = set as"
      by (auto simp: py_set_def split: option.splits)
    from as have "map atom_of syms = map Some as"
      by (induction syms arbitrary: as) (auto split: option.splits)
    with none have "Some ANone \<in> set (map Some as)"
      by (metis atom_of.simps(1) image_eqI list.set_map)
    then have "ANone \<in> S"
      using S by auto
    moreover have "\<not> is_str ANone" by simp
    ultimately show ?thesis by blast
  qed
  with list none show ?thesis by simp
qed

theorem get_all_pairs_returns_None_witness:
  "get_all_pairs (Body (PyDict [(''symbols'', PyList
     [PyDict [(''symbol'', PyStr ''BTCUSDT''), (''status'', PyStr ''TRADING'')],
      PyDict [(''status'', PyStr ''Trading'')]])])) = [PyStr ''BTCUSDT'', PyNone] \<and>
   py_set (PyList (get_all_pairs (Body (PyDict [(''symbols'', PyList
     [PyDict [(''symbol'', PyStr ''BTCUSDT''), (''status'', PyStr ''TRADING'')],
      PyDict [(''status'', PyStr ''Trading'')]])])))) = Inr {AStr ''BTCUSDT'', ANone} \<and>
   PyNone \<in> set [PyStr ''BTCUSDT'', PyNone] \<and>
   ANone \<in> {AStr ''BTCUSDT'', ANone}"
proof -
  let ?ss = "[PyDict [(''symbol'', PyStr ''BTCUSDT''), (''status'', PyStr ''TRADING'')],
              PyDict [(''status'', PyStr ''Trading'')]]"
  let ?payload = "[(''symbols'', PyList ?ss)]"
  have 1: "map_of ?payload ''symbols'' = Some (PyList ?ss)" by simp
  have 2: "trading ?ss = Inr [PyStr ''BTCUSDT'', PyNone]"
    by (simp add: upper_char_def)
  have 3: "PyDict [(''status'', PyStr ''Trading'')] \<in> set ?ss" by simp
  have 4: "map_of [(''status'', PyStr ''Trading'')] ''status'' = Some (PyStr ''Trading'')"
    by simp
  have 5: "map upper_char ''Trading'' = ''TRADING''"
    by (simp add: upper_char_def)
  have 6: "map_of [(''status'', PyStr ''Trading'')] ''symbol'' = None" by simp
  note facts = get_all_pairs_returns_None [OF 1 2 3 4 5 6]
  have list: "get_all_pairs (Body (PyDict ?payload)) = [PyStr ''BTCUSDT'', PyNone]"
    by (rule facts [THEN conjunct1])
  have mem: "PyNone \<in> set [PyStr ''BTCUSDT'', PyNone]"
    by (rule facts [THEN conjunct2, THEN conjunct1])
  have S: "py_set (PyList (get_all_pairs (Body (PyDict ?payload)))) =
      Inr {AStr ''BTCUSDT'', ANone}"
    unfolding list by (simp add: py_set_def)
  from facts [THEN conjunct2, THEN conjunct2] S have "ANone \<in> {AStr ''BTCUSDT'', ANone}"
    by blast
  with list S mem show ?thesis by (intro conjI)
qed

section \<open>The status command\<close>

lemma cycle_open_fails:
  "disk e = OpenFails \<Longrightarrow> known_pairs_file (cycle e s) = known_pairs_file s"
  by (simp add: cycle_def Let_def save_known_pairs_def write_known_pairs_def
      split: sum.splits)

text \<open>
  C10. The status reply counts what a load of the baseline file returns at the moment of
  the query: it is the same for any in-memory Known-Set, it leaves the state as it was,
  and after a pass whose save could not write the file it still counts the old file,
  whatever the pass added in memory.
\<close>

theorem status_reads_the_file:
  "fst (status_command s) = status_text (card (load_known_pairs (known_pairs_file s))) \<and>
   fst (status_command (s\<lparr>known := k\<rparr>)) = fst (status_command s) \<and>
   snd (status_command s) = s \<and>
   (disk e = OpenFails \<longrightarrow> fst (status_command (cycle e s)) = fst (status_command s))"
  by (simp add: status_command_def cycle_open_fails)

theorem status_reads_the_file_witness:
  "disk \<lparr>answer = exchange_info [''BTCUSDT'', ''ETHUSDT'', ''SOLUSDT''],
         sink = \<lambda>t. True, disk = OpenFails\<rparr> = OpenFails \<and>
   known (cycle \<lparr>answer = exchange_info [''BTCUSDT'', ''ETHUSDT'', ''SOLUSDT''],
                 sink = \<lambda>t. True, disk = OpenFails\<rparr>
            \<lparr>known = {AStr ''BTCUSDT'', AStr ''ETHUSDT''},
             known_pairs_file =
               Json (PyDict [(''pairs'', PyList [PyStr ''BTCUSDT'', PyStr ''ETHUSDT''])]),
             clock = 0, outbox = []\<rparr>) =
     {AStr ''BTCUSDT'', AStr ''ETHUSDT'', AStr ''SOLUSDT''} \<and>
   fst (status_command
          (cycle \<lparr>answer = exchange_info [''BTCUSDT'', ''ETHUSDT'', ''SOLUSDT''],
                  sink = \<lambda>t. True, disk = OpenFails\<rparr>
             \<lparr>known = {AStr ''BTCUSDT'', AStr ''ETHUSDT''},
              known_pairs_file =
                Json (PyDict [(''pairs'', PyList [PyStr ''BTCUSDT'', PyStr ''ETHUSDT''])]),
              clock = 0, outbox = []\<rparr>)) =
     [CHR 0xF0, CHR 0x9F, CHR 0x93, CHR 0x8A] @ '' Bekannte Paare: 2'' @ [CHR 0x0A] @
     ''Polling-Intervall: 60s''"
proof -
  let ?e = "\<lparr>answer = exchange_info [''BTCUSDT'', ''ETHUSDT'', ''SOLUSDT''],
             sink = \<lambda>t. True, disk = OpenFails\<rparr>"
  let ?f = "Json (PyDict [(''pairs'', PyList [PyStr ''BTCUSDT'', PyStr ''ETHUSDT''])])"
  let ?s = "\<lparr>known = {AStr ''BTCUSDT'', AStr ''ETHUSDT''}, known_pairs_file = ?f,
             clock = 0, outbox = []\<rparr>"
  let ?current = "{AStr ''BTCUSDT'', AStr ''ETHUSDT'', AStr ''SOLUSDT''}"
  have d: "disk ?e = OpenFails" by simp
  have fetched: "py_set (PyList (get_all_pairs (answer ?e))) = Inr ?current"
    by (simp add: fetched_exchange_info)
  have new: "?current - known ?s = {AStr ''SOLUSDT''}"
    by auto
  have sortable: "py_sorted (?current - known ?s) = Inr [AStr ''SOLUSDT'']"
    unfolding new by (simp add: py_sorted_strs)
  have "known (cycle ?e ?s) = known ?s \<union> ?current"
    by (rule cycle_known [OF fetched sortable])
  also have "\<dots> = ?current"
    by auto
  finally have grown: "known (cycle ?e ?s) = ?current" .
  have "load_known_pairs ?f = {AStr ''BTCUSDT'', AStr ''ETHUSDT''}"
    by (simp add: load_known_pairs_def read_known_pairs_def py_set_def)
  then have count: "card (load_known_pairs (known_pairs_file ?s)) = 2"
    by simp
  have "fst (status_command (cycle ?e ?s)) = fst (status_command ?s)"
    by (rule status_reads_the_file [of ?s _ ?e, THEN conjunct2, THEN conjunct2,
          THEN conjunct2, THEN mp, OF d])
  also have "\<dots> = status_text (card (load_known_pairs (known_pairs_file ?s)))"
    by (simp add: status_command_def)
  also have "\<dots> = [CHR 0xF0, CHR 0x9F, CHR 0x93, CHR 0x8A] @ '' Bekannte Paare: 2'' @
      [CHR 0x0A] @ ''Polling-Intervall: 60s''"
    unfolding count by (simp add: status_text_def POLL_INTERVAL_def show_nat.simps digit_def)
  finally have reply: "fst (status_command (cycle ?e ?s)) =
      [CHR 0xF0, CHR 0x9F, CHR 0x93, CHR 0x8A] @ '' Bekannte Paare: 2'' @ [CHR 0x0A] @
      ''Polling-Intervall: 60s''" .
  from d grown reply show ?thesis by (intro conjI)
qed

section \<open>Startup\<close>

text \<open>
  C4, as stated, fails: with a token and no chat id in the environment, and a library
  that accepts this token and no other, \<^verbatim>\<open>main\<close> creates the monitoring task, with the
  placeholder as chat id.
\<close>

theorem missing_chat_id_counterexample:
  "[''TELEGRAM_BOT_TOKEN'' \<mapsto> ''123456:ABC-DEF''] ''TELEGRAM_CHAT_ID'' = None \<and>
   main (\<lambda>t. t = ''123456:ABC-DEF'') [''TELEGRAM_BOT_TOKEN'' \<mapsto> ''123456:ABC-DEF''] =
     Monitoring ''123456:ABC-DEF'' ''DEINE_CHAT_ID_HIER''"
  by (simp add: main_def TELEGRAM_BOT_TOKEN_def TELEGRAM_CHAT_ID_def getenv_or_def)

text \<open>
  C4, amended: a credential that is missing from the configuration, or empty, is replaced
  by a fixed placeholder string, so the token and chat id in force are never empty;
  \<^verbatim>\<open>main\<close> checks neither: it creates the monitoring task with them whenever the library
  builds the application from the token, and only otherwise does not.
\<close>

theorem main_checks_no_credentials:
  "(environ ''TELEGRAM_BOT_TOKEN'' = None \<or> environ ''TELEGRAM_BOT_TOKEN'' = Some [] \<longrightarrow>
      TELEGRAM_BOT_TOKEN environ = ''DEIN_TELEGRAM_BOT_TOKEN_HIER'') \<and>
   (environ ''TELEGRAM_CHAT_ID'' = None \<or> environ ''TELEGRAM_CHAT_ID'' = Some [] \<longrightarrow>
      TELEGRAM_CHAT_ID environ = ''DEINE_CHAT_ID_HIER'') \<and>
   TELEGRAM_BOT_TOKEN environ \<noteq> [] \<and> TELEGRAM_CHAT_ID environ \<noteq> [] \<and>
   (build (TELEGRAM_BOT_TOKEN environ) \<longrightarrow>
      main build environ = Monitoring (TELEGRAM_BOT_TOKEN environ) (TELEGRAM_CHAT_ID environ)) \<and>
   (\<not> build (TELEGRAM_BOT_TOKEN environ) \<longrightarrow> main build environ = Aborted)"
  by (auto simp: main_def TELEGRAM_BOT_TOKEN_def TELEGRAM_CHAT_ID_def getenv_or_def
      split: option.splits)

theorem main_checks_no_credentials_witness:
  "Map.empty ''TELEGRAM_BOT_TOKEN'' = (None :: string option) \<and>
   Map.empty ''TELEGRAM_CHAT_ID'' = (None :: string option) \<and>
   TELEGRAM_BOT_TOKEN Map.empty = ''DEIN_TELEGRAM_BOT_TOKEN_HIER'' \<and>
   TELEGRAM_CHAT_ID Map.empty = ''DEINE_CHAT_ID_HIER'' \<and>
   main (\<lambda>t. t \<noteq> []) Map.empty =
     Monitoring ''DEIN_TELEGRAM_BOT_TOKEN_HIER'' ''DEINE_CHAT_ID_HIER'' \<and>
   main (\<lambda>t. False) Map.empty = Aborted"
  using main_checks_no_credentials [of Map.empty "\<lambda>t. t \<noteq> []"]
    main_checks_no_credentials [of Map.empty "\<lambda>t. False"]
  by simp

end
